theory Spec2Isabelle
  imports Complex_Main "HOL-Library.Char_ord" "HOL-Library.List_Lexorder" "HOL-Library.Sublist"
begin

section \<open>The salary dashboard of \<^verbatim>\<open>app1.py\<close>\<close>

text \<open>
  The script loads a table of salary records, filters it by four sidebar selections and
  computes metrics and chart aggregates from the filtered rows. The table is a list of
  rows in file order; a column is the list of one field of every row. Strings are byte
  lists, ordered lexicographically by byte, which is Python's code point order on UTF-8
  text. The salary column is numeric; pandas computes on 64-bit floats, which are taken
  here as exact reals, so rounding is outside the model. The table is the cleaned data
  set of the data model: no field is missing.
\<close>

subsection \<open>Data model\<close>

record row =
  ano :: int
  senioridade :: string
  contrato :: string
  tamanho_empresa :: string
  cargo :: string
  remoto :: string
  residencia :: string
  usd :: real

type_synonym table = "row list"

text \<open>Python values that reach the functions below, and the exceptions they can raise.\<close>

datatype py_val = PNone | PInt int | PFloat real | PStr string

datatype py_error = ValueError | NameError | KeyError | AttributeError

subsection \<open>Columns, masks and boolean indexing\<close>

text \<open>\<^verbatim>\<open>df['ano']\<close>: the column of a field.\<close>

definition col :: "(row \<Rightarrow> 'a) \<Rightarrow> table \<Rightarrow> 'a list" where
  "col f df = map f df"

text \<open>\<^verbatim>\<open>series.isin(values)\<close>: one boolean per entry, true when the entry is among the values.\<close>

definition isin :: "'a list \<Rightarrow> 'a list \<Rightarrow> bool list" where
  "isin series vals = map (\<lambda>v. v \<in> set vals) series"

text \<open>\<^verbatim>\<open>m1 & m2\<close> on boolean series of the same table: entrywise conjunction.\<close>

definition mask_and :: "bool list \<Rightarrow> bool list \<Rightarrow> bool list" where
  "mask_and m1 m2 = map (\<lambda>(a, b). a \<and> b) (zip m1 m2)"

text \<open>\<^verbatim>\<open>df[mask]\<close>: the rows whose mask entry is true, as a new table.\<close>

definition bool_index :: "'r list \<Rightarrow> bool list \<Rightarrow> 'r list" where
  "bool_index df bs = map fst (filter snd (zip df bs))"

text \<open>Lines 54 to 59: the filtered table.\<close>

definition df_filtrado :: "table \<Rightarrow> int list \<Rightarrow> string list \<Rightarrow> string list \<Rightarrow> string list \<Rightarrow> table" where
  "df_filtrado df anos_selecionados senioridades_selecionadas contratos_selecionados
      tamanhos_selecionados =
     bool_index df
       (mask_and
         (mask_and
           (mask_and (isin (col ano df) anos_selecionados)
                     (isin (col senioridade df) senioridades_selecionadas))
           (isin (col contrato df) contratos_selecionados))
         (isin (col tamanho_empresa df) tamanhos_selecionados))"

text \<open>The four membership tests of one row, as the invariant of the data model states them.\<close>

definition selecionada :: "int list \<Rightarrow> string list \<Rightarrow> string list \<Rightarrow> string list \<Rightarrow> row \<Rightarrow> bool" where
  "selecionada ys ss cs ts r \<longleftrightarrow>
     ano r \<in> set ys \<and> senioridade r \<in> set ss \<and> contrato r \<in> set cs \<and> tamanho_empresa r \<in> set ts"

subsection \<open>The sidebar: available and selected values\<close>

text \<open>
  \<^verbatim>\<open>series.unique()\<close>: the distinct entries in order of first appearance.
  \<^verbatim>\<open>sorted(...)\<close> is Python's ascending sort.
\<close>

definition unique :: "'a list \<Rightarrow> 'a list" where
  "unique xs = rev (remdups (rev xs))"

definition sorted_py :: "'a::linorder list \<Rightarrow> 'a list" where
  "sorted_py xs = sort xs"

text \<open>Lines 37, 41, 45 and 49: the options of the four filters, also their defaults.\<close>

definition anos_disponiveis :: "table \<Rightarrow> int list" where
  "anos_disponiveis df = sorted_py (unique (col ano df))"

definition senioridades_disponiveis :: "table \<Rightarrow> string list" where
  "senioridades_disponiveis df = sorted_py (unique (col senioridade df))"

definition contratos_disponiveis :: "table \<Rightarrow> string list" where
  "contratos_disponiveis df = sorted_py (unique (col contrato df))"

definition tamanhos_disponiveis :: "table \<Rightarrow> string list" where
  "tamanhos_disponiveis df = sorted_py (unique (col tamanho_empresa df))"

text \<open>
  One run of the script as a state transformer. The state holds the two table variables
  of the script: \<^verbatim>\<open>df\<close>, the cached table, and \<^verbatim>\<open>df_filtrado\<close>. The four
  selections are read from the sidebar widgets. Lines 54 to 59 assign
  \<^verbatim>\<open>df_filtrado\<close> only.
\<close>

record selecao =
  anos_selecionados :: "int list"
  senioridades_selecionadas :: "string list"
  contratos_selecionados :: "string list"
  tamanhos_selecionados :: "string list"

record estado =
  var_df :: table
  var_df_filtrado :: table

definition filtragem :: "selecao \<Rightarrow> estado \<Rightarrow> estado" where
  "filtragem sel s =
     s\<lparr>var_df_filtrado :=
         df_filtrado (var_df s) (anos_selecionados sel) (senioridades_selecionadas sel)
           (contratos_selecionados sel) (tamanhos_selecionados sel)\<rparr>"

subsection \<open>The country code normalizer\<close>

text \<open>
  \<^verbatim>\<open>str.upper()\<close> on bytes: an ASCII lower-case letter loses bit 5, which is
  subtracting 32; every other byte stays. Case mapping beyond ASCII is outside the model.
\<close>

definition upper_char :: "char \<Rightarrow> char" where
  "upper_char c =
     (if CHR ''a'' \<le> c \<and> c \<le> CHR ''z''
      then (case c of Char b0 b1 b2 b3 b4 b5 b6 b7 \<Rightarrow> Char b0 b1 b2 b3 b4 False b6 b7)
      else c)"

definition py_upper :: "string \<Rightarrow> string" where
  "py_upper s = map upper_char s"

text \<open>
  The lookup \<^verbatim>\<open>pycountry.countries.get(alpha_2=...)\<close> belongs to an external library and
  is a parameter: given a string it returns a country record, or \<^verbatim>\<open>None\<close>, or it raises.
\<close>

record country =
  alpha_2 :: string
  alpha_3 :: string

type_synonym countries_get = "string \<Rightarrow> py_error + country option"

text \<open>\<^verbatim>\<open>sigla.upper()\<close>: only a string has the method.\<close>

definition str_upper :: "py_val \<Rightarrow> py_error + string" where
  "str_upper v = (case v of PStr s \<Rightarrow> Inr (py_upper s) | _ \<Rightarrow> Inl AttributeError)"

text \<open>\<^verbatim>\<open>.alpha_3\<close>: \<^verbatim>\<open>None\<close> has no such attribute.\<close>

definition attr_alpha_3 :: "country option \<Rightarrow> py_error + string" where
  "attr_alpha_3 c = (case c of None \<Rightarrow> Inl AttributeError | Some r \<Rightarrow> Inr (alpha_3 r))"

text \<open>Line 10, the body of the \<^verbatim>\<open>try\<close>.\<close>

definition sigla_alpha_3 :: "countries_get \<Rightarrow> py_val \<Rightarrow> py_error + string" where
  "sigla_alpha_3 get sigla =
     (case str_upper sigla of
        Inl e \<Rightarrow> Inl e
      | Inr u \<Rightarrow>
          (case get u of
             Inl e \<Rightarrow> Inl e
           | Inr c \<Rightarrow> attr_alpha_3 c))"

text \<open>Lines 8 to 12: the bare \<^verbatim>\<open>except\<close> turns every exception into \<^verbatim>\<open>None\<close>.\<close>

definition converter_sigla :: "countries_get \<Rightarrow> py_val \<Rightarrow> py_error + string option" where
  "converter_sigla get sigla =
     (case sigla_alpha_3 get sigla of
        Inr a \<Rightarrow> Inr (Some a)
      | Inl e \<Rightarrow> Inr None)"

subsection \<open>The most frequent job title\<close>

text \<open>
  \<^verbatim>\<open>series.mode()\<close>: the entries with the highest count, in sorted order (pandas sorts
  the modes). \<^verbatim>\<open>[0]\<close> on the result reads label 0 and raises \<^verbatim>\<open>KeyError\<close> when the
  result is empty. Line 69 combines the two.
\<close>

definition mode_series :: "'a::linorder list \<Rightarrow> 'a list" where
  "mode_series xs =
     (let ks = unique xs; top = fold max (map (count_list xs) ks) 0
      in sorted_py (filter (\<lambda>k. count_list xs k = top) ks))"

definition series_item0 :: "'a list \<Rightarrow> py_error + 'a" where
  "series_item0 s = (case s of [] \<Rightarrow> Inl KeyError | x # _ \<Rightarrow> Inr x)"

definition cargo_mais_frequente :: "table \<Rightarrow> py_error + string" where
  "cargo_mais_frequente df = series_item0 (mode_series (col cargo df))"

text \<open>
  The tie rule in the words of the specification, for comparison with line 69: among the
  entries with the highest count, the one met first in row order.
\<close>

definition primeira_moda :: "'a list \<Rightarrow> 'a option" where
  "primeira_moda xs =
     find (\<lambda>x. count_list xs x = fold max (map (count_list xs) (unique xs)) 0) xs"

subsection \<open>The four metrics\<close>

text \<open>
  The script's variables are a namespace from names to values. A tuple assignment to
  \<open>n\<close> targets raises \<^verbatim>\<open>ValueError\<close> unless the right-hand side has \<open>n\<close>
  values; reading a name that was never assigned raises \<^verbatim>\<open>NameError\<close>.
\<close>

type_synonym env = "string \<rightharpoonup> py_val"

definition unpack_assign :: "string list \<Rightarrow> py_val list \<Rightarrow> env \<Rightarrow> py_error + env" where
  "unpack_assign targets vals e =
     (if length vals = length targets
      then Inr (fold (\<lambda>(n, v) e'. e'(n \<mapsto> v)) (zip targets vals) e)
      else Inl ValueError)"

definition load_name :: "env \<Rightarrow> string \<Rightarrow> py_error + py_val" where
  "load_name e n = (case e n of None \<Rightarrow> Inl NameError | Some v \<Rightarrow> Inr v)"

text \<open>
  \<^verbatim>\<open>series.mean()\<close> and \<^verbatim>\<open>series.max()\<close>. The script calls them on non-empty
  columns only: under the guard of line 65 and on the groups of a \<^verbatim>\<open>groupby\<close>. On an
  empty column pandas answers NaN, which the model does not represent.
\<close>

definition mean :: "real list \<Rightarrow> real" where
  "mean xs = sum_list xs / real (length xs)"

definition series_max :: "real list \<Rightarrow> real" where
  "series_max xs = fold max (tl xs) (hd xs)"

text \<open>
  Lines 65 to 71: the \<^verbatim>\<open>if\<close> assigns the four metrics, the \<^verbatim>\<open>else\<close> assigns the
  tuple \<^verbatim>\<open>0, 0, 0, ""\<close> to five names.
\<close>

definition metricas_atribuicao :: "table \<Rightarrow> env \<Rightarrow> py_error + env" where
  "metricas_atribuicao dff e =
     (if dff \<noteq> [] then
        (case cargo_mais_frequente dff of
           Inl err \<Rightarrow> Inl err
         | Inr c \<Rightarrow>
             Inr (e(''salario_medio'' \<mapsto> PFloat (mean (col usd dff)),
                    ''salario_maximo'' \<mapsto> PFloat (series_max (col usd dff)),
                    ''total_registros'' \<mapsto> PInt (int (length dff)),
                    ''cargo_mais_frequente'' \<mapsto> PStr c)))
      else
        unpack_assign
          [''salario_medio'', ''salario_mediano'', ''salario_maximo'', ''total_registros'',
           ''cargo_mais_comum'']
          [PInt 0, PInt 0, PInt 0, PStr ''''] e)"

text \<open>
  Lines 65 to 77: the assignment, then the four names that the metric widgets read, in
  the order of lines 74 to 77. The argument \<open>e\<close> is the namespace before line 65.
\<close>

definition metricas :: "table \<Rightarrow> env \<Rightarrow> py_error + py_val \<times> py_val \<times> py_val \<times> py_val" where
  "metricas dff e =
     (case metricas_atribuicao dff e of
        Inl err \<Rightarrow> Inl err
      | Inr e' \<Rightarrow>
     (case load_name e' ''salario_medio'' of
        Inl err \<Rightarrow> Inl err
      | Inr v_medio \<Rightarrow>
     (case load_name e' ''salario_maximo'' of
        Inl err \<Rightarrow> Inl err
      | Inr v_maximo \<Rightarrow>
     (case load_name e' ''total_registros'' of
        Inl err \<Rightarrow> Inl err
      | Inr v_total \<Rightarrow>
     (case load_name e' ''cargo_mais_frequente'' of
        Inl err \<Rightarrow> Inl err
      | Inr v_cargo \<Rightarrow> Inr (v_medio, v_maximo, v_total, v_cargo))))))"

subsection \<open>Chart aggregates\<close>

text \<open>
  \<^verbatim>\<open>df.groupby(key)['usd'].mean()\<close>: one entry for each distinct key, the keys in
  sorted order, each with the mean salary of the rows that have the key. A series with
  labels is a list of pairs of label and value.
\<close>

definition media_grupo :: "(row \<Rightarrow> 'k) \<Rightarrow> table \<Rightarrow> 'k \<Rightarrow> real" where
  "media_grupo key df k = mean (col usd (filter (\<lambda>r. key r = k) df))"

definition groupby_usd_mean :: "(row \<Rightarrow> 'k::linorder) \<Rightarrow> table \<Rightarrow> ('k \<times> real) list" where
  "groupby_usd_mean key df =
     map (\<lambda>k. (k, media_grupo key df k)) (sorted_py (unique (col key df)))"

text \<open>
  \<^verbatim>\<open>series.nlargest(n)\<close>: the \<open>n\<close> largest values in decreasing order; among equal
  values the entry that comes first is preferred.
\<close>

definition nlargest :: "nat \<Rightarrow> ('k \<times> real) list \<Rightarrow> ('k \<times> real) list" where
  "nlargest n s = take n (sort_key (\<lambda>(k, v). - v) s)"

text \<open>
  \<^verbatim>\<open>series.sort_values(ascending=True)\<close>. The place of entries with equal values is
  left to the sorting routine by pandas; the model keeps their order, and no statement
  below depends on it.
\<close>

definition sort_values :: "('k \<times> real) list \<Rightarrow> ('k \<times> real) list" where
  "sort_values s = sort_key (\<lambda>(k, v). v) s"

text \<open>
  Line 88. \<^verbatim>\<open>reset_index()\<close> turns the labelled series into a table of two columns,
  which the list of pairs already is.
\<close>

definition top_cargos :: "table \<Rightarrow> (string \<times> real) list" where
  "top_cargos dff = sort_values (nlargest 10 (groupby_usd_mean cargo dff))"

text \<open>A panel shows a chart of its aggregate, or a warning that there is nothing to show.\<close>

datatype 'a painel = Grafico 'a | Aviso

text \<open>Lines 86 to 100.\<close>

definition col_graf1 :: "table \<Rightarrow> (string \<times> real) list painel" where
  "col_graf1 dff = (if dff \<noteq> [] then Grafico (top_cargos dff) else Aviso)"

text \<open>Line 136: the rows of the fixed job title.\<close>

definition df_ds :: "table \<Rightarrow> table" where
  "df_ds dff = bool_index dff (map (\<lambda>c. c = ''Data Scientist'') (col cargo dff))"

text \<open>\<^verbatim>\<open>series.apply(f)\<close>: \<open>f\<close> on every entry in order; an exception of \<open>f\<close> ends it.\<close>

fun apply_series :: "('a \<Rightarrow> py_error + 'b) \<Rightarrow> 'a list \<Rightarrow> py_error + 'b list" where
  "apply_series f [] = Inr []"
| "apply_series f (x # xs) =
     (case f x of
        Inl e \<Rightarrow> Inl e
      | Inr y \<Rightarrow> (case apply_series f xs of Inl e \<Rightarrow> Inl e | Inr ys \<Rightarrow> Inr (y # ys)))"

text \<open>
  Lines 137 and 138: mean salary by residence, then the column \<^verbatim>\<open>iso_alpha\<close>. A row
  of the result is residence code, mean salary and 3-letter code, the last being
  \<^verbatim>\<open>None\<close> when the code is not resolved.
\<close>

definition df_pais :: "countries_get \<Rightarrow> table \<Rightarrow> py_error + (string \<times> real \<times> string option) list" where
  "df_pais get dff =
     (let g = groupby_usd_mean residencia (df_ds dff) in
      case apply_series (\<lambda>x. converter_sigla get (PStr (py_upper x))) (map fst g) of
        Inl e \<Rightarrow> Inl e
      | Inr iso_alpha \<Rightarrow> Inr (map (\<lambda>((r, m), i). (r, m, i)) (zip g iso_alpha)))"

text \<open>Lines 134 to 152.\<close>

definition col_graf4 ::
  "countries_get \<Rightarrow> table \<Rightarrow> py_error + (string \<times> real \<times> string option) list painel" where
  "col_graf4 get dff =
     (if dff \<noteq> [] then
        (case df_pais get dff of Inl e \<Rightarrow> Inl e | Inr t \<Rightarrow> Inr (Grafico t))
      else Inr Aviso)"

text \<open>The 3-letter code of a residence code in terms of the lookup, used in the proofs.\<close>

definition iso_de :: "countries_get \<Rightarrow> string \<Rightarrow> string option" where
  "iso_de get r =
     (case get (py_upper r) of Inr (Some c) \<Rightarrow> Some (alpha_3 c) | _ \<Rightarrow> None)"

subsection \<open>Example data\<close>

definition mk_row :: "int \<Rightarrow> string \<Rightarrow> string \<Rightarrow> string \<Rightarrow> string \<Rightarrow> string \<Rightarrow> real \<Rightarrow> row" where
  "mk_row y s c t j p v =
     \<lparr>ano = y, senioridade = s, contrato = c, tamanho_empresa = t, cargo = j,
      remoto = ''remoto'', residencia = p, usd = v\<rparr>"

definition exemplo :: table where
  "exemplo =
     [mk_row 2023 ''senior'' ''integral'' ''media'' ''Data Engineer'' ''US'' 150000,
      mk_row 2022 ''junior'' ''integral'' ''grande'' ''Data Scientist'' ''BR'' 60000,
      mk_row 2023 ''senior'' ''contrato'' ''media'' ''Data Scientist'' ''US'' 140000,
      mk_row 2023 ''pleno'' ''integral'' ''media'' ''Analyst'' ''ZZ'' 90000]"

text \<open>Two rows whose job titles are tied, the alphabetically later one first.\<close>

definition empate :: table where
  "empate =
     [mk_row 2023 ''senior'' ''integral'' ''media'' ''Data Engineer'' ''US'' 150000,
      mk_row 2023 ''pleno'' ''integral'' ''media'' ''Analyst'' ''BR'' 90000]"

text \<open>
  Rows for the map: two Data Scientist rows of one residence with different salaries, the
  residence code in lower case, one row of another title and one code the table lacks.
\<close>

definition exemplo_paises :: table where
  "exemplo_paises =
     [mk_row 2023 ''senior'' ''integral'' ''media'' ''Data Scientist'' ''us'' 100000,
      mk_row 2023 ''pleno'' ''integral'' ''media'' ''Analyst'' ''us'' 90000,
      mk_row 2022 ''junior'' ''integral'' ''grande'' ''Data Scientist'' ''BR'' 60000,
      mk_row 2023 ''senior'' ''contrato'' ''media'' ''Data Scientist'' ''us'' 140000,
      mk_row 2023 ''pleno'' ''integral'' ''media'' ''Data Scientist'' ''zz'' 50000]"

text \<open>A small reference table, and a lookup that returns \<^verbatim>\<open>None\<close> for an unknown code.\<close>

definition tabela_paises :: "country list" where
  "tabela_paises =
     [\<lparr>alpha_2 = ''BR'', alpha_3 = ''BRA''\<rparr>, \<lparr>alpha_2 = ''US'', alpha_3 = ''USA''\<rparr>]"

definition get_tabela :: "country list \<Rightarrow> countries_get" where
  "get_tabela db v = Inr (find (\<lambda>c. alpha_2 c = v) db)"

section \<open>Filtering\<close>

lemma bool_index_map:
  "bool_index df (map p df) = filter p df"
  by (induction df) (simp_all add: bool_index_def)

lemma mask_and_map:
  "mask_and (map p xs) (map q xs) = map (\<lambda>x. p x \<and> q x) xs"
  by (induction xs) (simp_all add: mask_and_def)

lemma isin_col:
  "isin (col f df) vals = map (\<lambda>r. f r \<in> set vals) df"
  by (simp add: isin_def col_def)

lemma df_filtrado_filter:
  "df_filtrado df ys ss cs ts = filter (selecionada ys ss cs ts) df"
  unfolding df_filtrado_def isin_col mask_and_map bool_index_map selecionada_def
  by (rule filter_cong) auto

text \<open>
  C1: for every table and every four selections, the filtered table holds exactly the rows
  whose year, seniority, contract and company size are each among the selected values,
  every such row as often as the table has it, and in the order of the table.
\<close>

theorem C1_filtered_rows_exact:
  "df_filtrado df ys ss cs ts = filter (selecionada ys ss cs ts) df \<and>
   set (df_filtrado df ys ss cs ts) = {r. r \<in> set df \<and> selecionada ys ss cs ts r} \<and>
   subseq (df_filtrado df ys ss cs ts) df"
  by (auto simp add: df_filtrado_filter)

text \<open>
  C3: for every table, if one of the four selections is empty, the filtered table is empty.
\<close>

theorem C3_empty_selection_empty_result:
  "ys = [] \<or> ss = [] \<or> cs = [] \<or> ts = [] \<Longrightarrow> df_filtrado df ys ss cs ts = []"
  by (auto simp add: df_filtrado_filter selecionada_def filter_empty_conv)

theorem C3_witness:
  "df_filtrado exemplo [2023] [] [''integral''] [''media''] = []"
  using C3_empty_selection_empty_result [of "[2023]" "[]" "[''integral'']" "[''media'']" exemplo]
  by simp

text \<open>
  C8: filtering is pure and idempotent. Running the filter step leaves the table variable
  as it was; running it twice with the same selections gives the state of running it once;
  and filtering the filtered table again with the same selections changes nothing.
\<close>

theorem C8_filter_pure_idempotent:
  "var_df (filtragem sel s) = var_df s \<and>
   filtragem sel (filtragem sel s) = filtragem sel s \<and>
   df_filtrado (df_filtrado df ys ss cs ts) ys ss cs ts = df_filtrado df ys ss cs ts"
  by (simp add: filtragem_def df_filtrado_filter)

lemma set_unique: "set (unique xs) = set xs"
  by (simp add: unique_def)

lemma set_disponiveis:
  "set (anos_disponiveis df) = ano ` set df"
  "set (senioridades_disponiveis df) = senioridade ` set df"
  "set (contratos_disponiveis df) = contrato ` set df"
  "set (tamanhos_disponiveis df) = tamanho_empresa ` set df"
  by (simp_all add: anos_disponiveis_def senioridades_disponiveis_def contratos_disponiveis_def
      tamanhos_disponiveis_def sorted_py_def set_unique col_def)

text \<open>
  C9: when each selection has exactly the distinct values of its column, which is the
  default of the four widgets, the filtered table is the whole table.
\<close>

theorem C9_full_selection_identity:
  assumes "set ys = set (anos_disponiveis df)"
    and "set ss = set (senioridades_disponiveis df)"
    and "set cs = set (contratos_disponiveis df)"
    and "set ts = set (tamanhos_disponiveis df)"
  shows "df_filtrado df ys ss cs ts = df"
proof -
  have "selecionada ys ss cs ts r" if "r \<in> set df" for r
    using that assms by (simp add: selecionada_def set_disponiveis)
  then show ?thesis
    by (simp add: df_filtrado_filter)
qed

theorem C9_witness:
  "df_filtrado exemplo (anos_disponiveis exemplo) (senioridades_disponiveis exemplo)
     (contratos_disponiveis exemplo) (tamanhos_disponiveis exemplo) = exemplo \<and>
   anos_disponiveis exemplo = [2022, 2023] \<and>
   contratos_disponiveis exemplo = [''contrato'', ''integral'']"
proof -
  have "anos_disponiveis exemplo = [2022, 2023]"
    by (simp add: anos_disponiveis_def sorted_py_def unique_def col_def exemplo_def mk_row_def)
  moreover have "contratos_disponiveis exemplo = [''contrato'', ''integral'']"
    by (simp add: contratos_disponiveis_def sorted_py_def unique_def col_def exemplo_def mk_row_def)
  ultimately show ?thesis
    using C9_full_selection_identity [of "anos_disponiveis exemplo" exemplo
        "senioridades_disponiveis exemplo" "contratos_disponiveis exemplo"
        "tamanhos_disponiveis exemplo"]
    by simp
qed

section \<open>The country code normalizer\<close>

text \<open>
  C5: the normalizer is total and never raises. For every lookup function and every input
  it returns a value; on a string whose upper-case form the lookup knows it returns that
  country's 3-letter code, whatever the letter case of the input; on a string the lookup
  does not know, or on which the lookup raises, and on every input that is not a string,
  it returns \<^verbatim>\<open>None\<close>.
\<close>

theorem C5_converter_sigla_total:
  "(\<exists>r. converter_sigla get v = Inr r) \<and>
   (get (py_upper s) = Inr (Some c) \<longrightarrow> converter_sigla get (PStr s) = Inr (Some (alpha_3 c))) \<and>
   (get (py_upper s) = Inr None \<longrightarrow> converter_sigla get (PStr s) = Inr None) \<and>
   (get (py_upper s) = Inl e \<longrightarrow> converter_sigla get (PStr s) = Inr None) \<and>
   ((\<forall>t. v \<noteq> PStr t) \<longrightarrow> converter_sigla get v = Inr None)"
  by (cases v)
    (auto simp add: converter_sigla_def sigla_alpha_3_def str_upper_def attr_alpha_3_def
      split: sum.splits option.splits)

theorem C5_witness:
  "converter_sigla (get_tabela tabela_paises) (PStr ''US'') = Inr (Some ''USA'') \<and>
   converter_sigla (get_tabela tabela_paises) (PStr ''us'') = Inr (Some ''USA'') \<and>
   converter_sigla (get_tabela tabela_paises) (PStr ''ZZ'') = Inr None \<and>
   converter_sigla (get_tabela tabela_paises) PNone = Inr None"
proof -
  have us: "get_tabela tabela_paises ''US'' = Inr (Some \<lparr>alpha_2 = ''US'', alpha_3 = ''USA''\<rparr>)"
    by (simp add: get_tabela_def tabela_paises_def)
  have zz: "get_tabela tabela_paises ''ZZ'' = Inr None"
    by (simp add: get_tabela_def tabela_paises_def)
  have up: "py_upper ''US'' = ''US''" "py_upper ''us'' = ''US''" "py_upper ''ZZ'' = ''ZZ''"
    by (simp_all add: py_upper_def upper_char_def)
  show ?thesis
    using C5_converter_sigla_total [of "get_tabela tabela_paises" PNone "''US''"
        "\<lparr>alpha_2 = ''US'', alpha_3 = ''USA''\<rparr>"]
      C5_converter_sigla_total [of "get_tabela tabela_paises" PNone "''us''"
        "\<lparr>alpha_2 = ''US'', alpha_3 = ''USA''\<rparr>"]
      C5_converter_sigla_total [of "get_tabela tabela_paises" PNone "''ZZ''"]
    by (simp add: us zz up)
qed

section \<open>The most frequent job title\<close>

lemma fold_max_ge: "a \<le> fold max ns (a::nat)"
  by (induction ns arbitrary: a) (auto intro: order_trans [OF max.cobounded2])

lemma fold_max_upper: "n \<in> set ns \<Longrightarrow> n \<le> fold max ns (a::nat)"
proof (induction ns arbitrary: a)
  case Nil
  then show ?case by simp
next
  case (Cons m ns)
  show ?case
  proof (cases "n = m")
    case True
    have "m \<le> max m a" by simp
    also have "\<dots> \<le> fold max ns (max m a)" by (rule fold_max_ge)
    finally show ?thesis using True by simp
  next
    case False
    with Cons show ?thesis by simp
  qed
qed

lemma fold_max_attained: "fold max ns (a::nat) = a \<or> fold max ns a \<in> set ns"
proof (induction ns arbitrary: a)
  case Nil
  then show ?case by simp
next
  case (Cons m ns)
  from Cons [of "max m a"] show ?case
    by (auto simp add: max_def split: if_splits)
qed

lemma top_count_attained:
  assumes "xs \<noteq> []"
  shows "\<exists>k \<in> set xs. count_list xs k = fold max (map (count_list xs) (unique xs)) 0"
proof -
  let ?top = "fold max (map (count_list xs) (unique xs)) 0"
  from assms obtain x where x: "x \<in> set xs" by (cases xs) auto
  then have "0 < count_list xs x" using count_list_0_iff [of xs x] by auto
  moreover have "count_list xs x \<le> ?top"
    using x by (intro fold_max_upper) (simp add: set_unique)
  ultimately have "?top \<noteq> 0" by simp
  with fold_max_attained [of "map (count_list xs) (unique xs)" 0]
  have "?top \<in> set (map (count_list xs) (unique xs))" by auto
  then show ?thesis by (auto simp add: set_unique)
qed

lemma set_mode_series:
  "set (mode_series xs) =
     {k \<in> set xs. count_list xs k = fold max (map (count_list xs) (unique xs)) 0}"
  by (auto simp add: mode_series_def Let_def sorted_py_def set_unique)

lemma sorted_mode_series: "sorted (mode_series xs)"
  by (simp add: mode_series_def Let_def sorted_py_def)

lemma mode_series_nonempty: "xs \<noteq> [] \<Longrightarrow> mode_series xs \<noteq> []"
proof -
  assume "xs \<noteq> []"
  from top_count_attained [OF this] have "set (mode_series xs) \<noteq> {}"
    unfolding set_mode_series by blast
  then show ?thesis by auto
qed

lemma top_count_upper:
  "count_list xs u \<le> fold max (map (count_list xs) (unique xs)) 0"
proof (cases "u \<in> set xs")
  case True
  then show ?thesis by (intro fold_max_upper) (simp add: set_unique)
next
  case False
  then show ?thesis using count_list_0_iff [of xs u] by auto
qed

lemma cargo_mais_frequente_defined:
  assumes "dff \<noteq> []"
  shows "\<exists>t. cargo_mais_frequente dff = Inr t \<and> mode_series (col cargo dff) = t # tl (mode_series (col cargo dff))"
proof -
  from assms have "col cargo dff \<noteq> []" by (simp add: col_def)
  then have "mode_series (col cargo dff) \<noteq> []" by (rule mode_series_nonempty)
  then obtain t ts where "mode_series (col cargo dff) = t # ts"
    by (cases "mode_series (col cargo dff)") auto
  then show ?thesis by (simp add: cargo_mais_frequente_def series_item0_def)
qed

text \<open>
  C10: on a non-empty filtered table the most frequent title is computed safely. The mode
  of the job title column is not empty, reading its entry 0 succeeds, and the four
  metrics are returned without an exception.
\<close>

theorem C10_mode_nonempty_safe:
  assumes "dff \<noteq> []"
  shows "mode_series (col cargo dff) \<noteq> [] \<and>
         (\<exists>t. cargo_mais_frequente dff = Inr t \<and>
            metricas dff e =
              Inr (PFloat (mean (col usd dff)), PFloat (series_max (col usd dff)),
                   PInt (int (length dff)), PStr t))"
proof -
  from cargo_mais_frequente_defined [OF assms] obtain t where
    t: "cargo_mais_frequente dff = Inr t"
    and m: "mode_series (col cargo dff) = t # tl (mode_series (col cargo dff))" by blast
  from m have "mode_series (col cargo dff) \<noteq> []" by (metis list.distinct(1))
  moreover have "metricas dff e =
            Inr (PFloat (mean (col usd dff)), PFloat (series_max (col usd dff)),
                 PInt (int (length dff)), PStr t)"
    using assms t by (simp add: metricas_def metricas_atribuicao_def load_name_def)
  ultimately show ?thesis using t by blast
qed

theorem C10_witness:
  "exemplo \<noteq> [] \<and> cargo_mais_frequente exemplo = Inr ''Data Scientist'' \<and>
   metricas exemplo Map.empty = Inr (PFloat 110000, PFloat 150000, PInt 4, PStr ''Data Scientist'')"
proof -
  have ne: "exemplo \<noteq> []" by (simp add: exemplo_def)
  have c: "cargo_mais_frequente exemplo = Inr ''Data Scientist''"
    by (simp add: cargo_mais_frequente_def series_item0_def mode_series_def unique_def
        sorted_py_def col_def exemplo_def mk_row_def)
  have u: "mean (col usd exemplo) = 110000" "series_max (col usd exemplo) = 150000"
    "int (length exemplo) = 4"
    by (simp_all add: mean_def series_max_def col_def exemplo_def mk_row_def)
  from C10_mode_nonempty_safe [OF ne, of Map.empty] ne c u show ?thesis by simp
qed

text \<open>
  C4, as the specification states it, fails on a tie: of two titles that occur once each,
  line 69 reports the alphabetically smaller one, not the one met first.
\<close>

theorem C4_counterexample:
  "cargo_mais_frequente empate = Inr ''Analyst'' \<and>
   primeira_moda (col cargo empate) = Some ''Data Engineer'' \<and>
   count_list (col cargo empate) ''Analyst'' = count_list (col cargo empate) ''Data Engineer''"
  by (simp add: cargo_mais_frequente_def series_item0_def mode_series_def unique_def
      sorted_py_def primeira_moda_def col_def empate_def mk_row_def)

text \<open>
  C4, amended: on every non-empty filtered table the reported title occurs in the table,
  no title occurs more often, and among the titles tied for the highest count it is the
  smallest in string order.
\<close>

theorem C4_mode_highest_count_smallest_on_tie:
  assumes "dff \<noteq> []"
  shows "\<exists>t. cargo_mais_frequente dff = Inr t \<and> t \<in> set (col cargo dff) \<and>
     (\<forall>u. count_list (col cargo dff) u \<le> count_list (col cargo dff) t) \<and>
     (\<forall>u. count_list (col cargo dff) u = count_list (col cargo dff) t \<longrightarrow> t \<le> u)"
proof -
  let ?cs = "col cargo dff"
  let ?top = "fold max (map (count_list ?cs) (unique ?cs)) 0"
  from cargo_mais_frequente_defined [OF assms] obtain t where
    t: "cargo_mais_frequente dff = Inr t"
    and m: "mode_series ?cs = t # tl (mode_series ?cs)" by blast
  have "t \<in> set (mode_series ?cs)" by (subst m) simp
  then have tin: "t \<in> set ?cs" and tc: "count_list ?cs t = ?top"
    by (simp_all add: set_mode_series)
  have up: "count_list ?cs u \<le> count_list ?cs t" for u
    unfolding tc by (rule top_count_upper)
  have "t \<le> u" if eq: "count_list ?cs u = count_list ?cs t" for u
  proof -
    from tin have "0 < count_list ?cs t" using count_list_0_iff [of ?cs t] by auto
    with eq have "u \<in> set ?cs" using count_list_0_iff [of ?cs u] by auto
    with eq tc have "u \<in> set (mode_series ?cs)" by (simp add: set_mode_series)
    then have "u \<in> set (t # tl (mode_series ?cs))" using m by simp
    moreover have "sorted (t # tl (mode_series ?cs))"
      using sorted_mode_series [of ?cs] m by simp
    ultimately show ?thesis by auto
  qed
  with t tin up show ?thesis by blast
qed

theorem C4_witness:
  "empate \<noteq> [] \<and> cargo_mais_frequente empate = Inr ''Analyst'' \<and>
   (\<exists>t. cargo_mais_frequente empate = Inr t \<and> t \<in> set (col cargo empate) \<and>
     (\<forall>u. count_list (col cargo empate) u \<le> count_list (col cargo empate) t) \<and>
     (\<forall>u. count_list (col cargo empate) u = count_list (col cargo empate) t \<longrightarrow> t \<le> u))"
proof -
  have ne: "empate \<noteq> []" by (simp add: empate_def)
  have c: "cargo_mais_frequente empate = Inr ''Analyst''"
    by (simp add: cargo_mais_frequente_def series_item0_def mode_series_def unique_def
        sorted_py_def col_def empate_def mk_row_def)
  from C4_mode_highest_count_smallest_on_tie [OF ne] ne c show ?thesis by blast
qed

section \<open>The metrics on an empty filtered table\<close>

text \<open>
  C2: on an empty filtered table the script does not produce the defaults. The tuple
  assignment of line 71 has five targets and four values and raises \<^verbatim>\<open>ValueError\<close>,
  for the empty table and for a table emptied by an empty selection.
\<close>

theorem C2_empty_subset_raises:
  "metricas [] e = Inl ValueError \<and>
   metricas (df_filtrado exemplo [] [''senior''] [''integral''] [''media'']) e = Inl ValueError"
  by (simp add: metricas_def metricas_atribuicao_def unpack_assign_def df_filtrado_filter
      selecionada_def)

section \<open>Chart aggregates\<close>

lemma distinct_unique: "distinct (unique xs)"
  by (simp add: unique_def)

lemma groupby_keys:
  "map fst (groupby_usd_mean key df) = sorted_py (unique (col key df))"
  by (simp add: groupby_usd_mean_def comp_def)

lemma groupby_distinct: "distinct (map fst (groupby_usd_mean key df))"
  by (simp add: groupby_keys sorted_py_def distinct_unique)

lemma groupby_set:
  "set (groupby_usd_mean key df) = (\<lambda>k. (k, media_grupo key df k)) ` set (col key df)"
  by (simp add: groupby_usd_mean_def sorted_py_def set_unique)

lemma groupby_length:
  "length (groupby_usd_mean key df) = card (set (col key df))"
proof -
  have "length (groupby_usd_mean key df) = length (unique (col key df))"
    by (simp add: groupby_usd_mean_def sorted_py_def)
  also have "\<dots> = card (set (unique (col key df)))"
    by (rule distinct_card [symmetric]) (rule distinct_unique)
  finally show ?thesis by (simp add: set_unique)
qed

lemma distinct_fst_sort_key:
  "distinct (map fst (sort_key f xs)) = distinct (map fst xs)"
  by (simp add: distinct_map)

lemma sorted_desc_sort_key:
  "sorted_wrt (\<lambda>x y. snd y \<le> snd x) (sort_key (\<lambda>(k, v). - v) (s :: ('k \<times> real) list))"
proof -
  have "sorted (map (\<lambda>(k, v). - v) (sort_key (\<lambda>(k, v). - v) s))"
    by (rule sorted_sort_key)
  then show ?thesis
    by (simp add: sorted_map case_prod_beta)
qed

lemma nlargest_descending: "sorted (rev (map snd (nlargest n s)))"
proof -
  have "sorted_wrt (\<lambda>x y. snd y \<le> snd x) (nlargest n s)"
    unfolding nlargest_def by (rule sorted_wrt_take) (rule sorted_desc_sort_key)
  then show ?thesis
    by (simp add: sorted_wrt_rev sorted_wrt_map flip: rev_map)
qed

lemma nlargest_subset: "set (nlargest n s) \<subseteq> set s"
  using set_take_subset [of n "sort_key (\<lambda>(k, v). - v) s"] by (simp add: nlargest_def)

lemma nlargest_length: "length (nlargest n s) = min n (length s)"
  by (simp add: nlargest_def min.commute)

lemma nlargest_distinct: "distinct (map fst s) \<Longrightarrow> distinct (map fst (nlargest n s))"
  by (simp add: nlargest_def distinct_fst_sort_key take_map [symmetric])

lemma nlargest_top:
  assumes "x \<in> set (nlargest n s)" and "y \<in> set s" and "y \<notin> set (nlargest n s)"
  shows "snd y \<le> snd x"
proof -
  let ?l = "sort_key (\<lambda>(k, v). - v) s"
  have "sorted_wrt (\<lambda>x y. snd y \<le> snd x) (take n ?l @ drop n ?l)"
    using sorted_desc_sort_key [of s] by simp
  then have *: "\<forall>a \<in> set (take n ?l). \<forall>b \<in> set (drop n ?l). snd b \<le> snd a"
    unfolding sorted_wrt_append by blast
  have "set ?l = set (take n ?l) \<union> set (drop n ?l)"
    by (metis append_take_drop_id set_append)
  with assms(2,3) have "y \<in> set (drop n ?l)" by (simp add: nlargest_def)
  with * assms(1) show ?thesis by (simp add: nlargest_def)
qed

lemma sort_values_set: "set (sort_values s) = set s"
  by (simp add: sort_values_def)

lemma sort_values_sorted: "sorted (map snd (sort_values s))"
proof -
  have "(\<lambda>(k, v). v) = (snd :: 'a \<times> real \<Rightarrow> real)" by auto
  then show ?thesis using sorted_sort_key [of snd s] by (simp add: sort_values_def)
qed

text \<open>
  C6: on every non-empty filtered table the bar chart panel shows the top job titles. The
  selection of line 88 is in decreasing order of mean salary; the result has the same
  entries in increasing order of mean salary; it has ten entries, or as many as there are
  distinct titles if these are fewer; its titles are distinct titles of the table, each
  with the mean salary of its rows; and no title left out has a mean salary above that of
  a title in the result.
\<close>

theorem C6_top_cargos:
  assumes "dff \<noteq> []"
  shows "col_graf1 dff = Grafico (top_cargos dff) \<and>
    sorted (rev (map snd (nlargest 10 (groupby_usd_mean cargo dff)))) \<and>
    set (top_cargos dff) = set (nlargest 10 (groupby_usd_mean cargo dff)) \<and>
    sorted (map snd (top_cargos dff)) \<and>
    length (top_cargos dff) = min 10 (card (set (col cargo dff))) \<and>
    distinct (map fst (top_cargos dff)) \<and>
    (\<forall>(t, m) \<in> set (top_cargos dff).
       t \<in> set (col cargo dff) \<and> filter (\<lambda>r. cargo r = t) dff \<noteq> [] \<and>
       m = mean (col usd (filter (\<lambda>r. cargo r = t) dff))) \<and>
    (\<forall>t \<in> set (col cargo dff). t \<notin> fst ` set (top_cargos dff) \<longrightarrow>
       (\<forall>(t', m') \<in> set (top_cargos dff).
          mean (col usd (filter (\<lambda>r. cargo r = t) dff)) \<le> m'))"
proof -
  let ?g = "groupby_usd_mean cargo dff"
  let ?tc = "top_cargos dff"
  have panel: "col_graf1 dff = Grafico ?tc"
    using assms by (simp add: col_graf1_def)
  have desc: "sorted (rev (map snd (nlargest 10 ?g)))"
    by (rule nlargest_descending)
  have same: "set ?tc = set (nlargest 10 ?g)"
    by (simp add: top_cargos_def sort_values_set)
  have asc: "sorted (map snd ?tc)"
    unfolding top_cargos_def by (rule sort_values_sorted)
  have len: "length ?tc = min 10 (card (set (col cargo dff)))"
    by (simp add: top_cargos_def sort_values_def nlargest_length groupby_length)
  have "distinct (map fst (nlargest 10 ?g))"
    by (rule nlargest_distinct) (rule groupby_distinct)
  then have dist: "distinct (map fst ?tc)"
    by (simp add: top_cargos_def sort_values_def distinct_fst_sort_key)
  have sub: "set ?tc \<subseteq> set ?g"
    using nlargest_subset [of 10 ?g] same by simp
  have entries: "\<forall>(t, m) \<in> set ?tc.
       t \<in> set (col cargo dff) \<and> filter (\<lambda>r. cargo r = t) dff \<noteq> [] \<and>
       m = mean (col usd (filter (\<lambda>r. cargo r = t) dff))"
    using sub by (auto simp add: groupby_set media_grupo_def col_def filter_empty_conv)
  have top: "\<forall>t \<in> set (col cargo dff). t \<notin> fst ` set ?tc \<longrightarrow>
       (\<forall>(t', m') \<in> set ?tc. mean (col usd (filter (\<lambda>r. cargo r = t) dff)) \<le> m')"
  proof (intro ballI impI)
    fix t x
    assume t: "t \<in> set (col cargo dff)" and out: "t \<notin> fst ` set ?tc" and x: "x \<in> set ?tc"
    let ?y = "(t, media_grupo cargo dff t)"
    have "?y \<in> set ?g" using t by (simp add: groupby_set)
    moreover have "?y \<notin> set (nlargest 10 ?g)"
      using out same by force
    moreover have "x \<in> set (nlargest 10 ?g)" using x same by simp
    ultimately have "snd ?y \<le> snd x" by (rule nlargest_top [rotated])
    then show "case x of (t', m') \<Rightarrow> mean (col usd (filter (\<lambda>r. cargo r = t) dff)) \<le> m'"
      by (simp add: media_grupo_def case_prod_beta)
  qed
  from panel desc same asc len dist entries top show ?thesis by blast
qed

lemma top_cargos_exemplo:
  "top_cargos exemplo =
     [(''Analyst'', 90000), (''Data Scientist'', 100000), (''Data Engineer'', 150000)]"
  by (simp add: top_cargos_def sort_values_def nlargest_def groupby_usd_mean_def media_grupo_def
      mean_def sorted_py_def unique_def col_def exemplo_def mk_row_def)

theorem C6_witness:
  "exemplo \<noteq> [] \<and>
   col_graf1 exemplo =
     Grafico [(''Analyst'', 90000), (''Data Scientist'', 100000), (''Data Engineer'', 150000)] \<and>
   sorted (map snd (top_cargos exemplo)) \<and>
   length (top_cargos exemplo) = min 10 (card (set (col cargo exemplo))) \<and>
   nlargest 2 (groupby_usd_mean cargo exemplo) =
     [(''Data Engineer'', 150000), (''Data Scientist'', 100000)]"
proof -
  have two: "nlargest 2 (groupby_usd_mean cargo exemplo) =
     [(''Data Engineer'', 150000), (''Data Scientist'', 100000)]"
    by (simp add: nlargest_def groupby_usd_mean_def media_grupo_def
      mean_def sorted_py_def unique_def col_def exemplo_def mk_row_def)
  have ne: "exemplo \<noteq> []" by (simp add: exemplo_def)
  from C6_top_cargos [OF ne] ne show ?thesis
    by (simp add: top_cargos_exemplo two)
qed

lemma upper_char_idem: "upper_char (upper_char c) = upper_char c"
  by (cases c) (auto simp add: upper_char_def)

lemma py_upper_idem: "py_upper (py_upper s) = py_upper s"
  by (simp add: py_upper_def upper_char_idem)

lemma converter_sigla_upper:
  "converter_sigla get (PStr (py_upper r)) = Inr (iso_de get r)"
  by (simp add: converter_sigla_def sigla_alpha_3_def str_upper_def attr_alpha_3_def
      iso_de_def py_upper_idem split: sum.splits option.splits)

lemma apply_series_total:
  "(\<And>x. f x = Inr (h x)) \<Longrightarrow> apply_series f xs = Inr (map h xs)"
  by (induction xs) simp_all

lemma df_ds_filter: "df_ds dff = filter (\<lambda>r. cargo r = ''Data Scientist'') dff"
proof -
  have "map (\<lambda>c. c = ''Data Scientist'') (col cargo dff) = map (\<lambda>r. cargo r = ''Data Scientist'') dff"
    by (simp add: col_def)
  then show ?thesis by (simp add: df_ds_def bool_index_map)
qed

lemma zip_map_self: "map (\<lambda>((r, m), i). (r, m, i)) (zip g (map h (map fst g))) = map (\<lambda>(r, m). (r, m, h r)) g"
  by (induction g) auto

lemma df_pais_eq:
  "df_pais get dff =
     Inr (map (\<lambda>(r, m). (r, m, iso_de get r)) (groupby_usd_mean residencia (df_ds dff)))"
proof -
  let ?g = "groupby_usd_mean residencia (df_ds dff)"
  have "apply_series (\<lambda>x. converter_sigla get (PStr (py_upper x))) (map fst ?g) =
      Inr (map (iso_de get) (map fst ?g))"
    by (rule apply_series_total) (rule converter_sigla_upper)
  then show ?thesis
    by (simp add: df_pais_def Let_def zip_map_self del: map_map)
qed

lemma upper_char_byte:
  "(of_char (upper_char c) :: nat) =
     (if 97 \<le> (of_char c :: nat) \<and> (of_char c :: nat) \<le> 122 then (of_char c :: nat) - 32 else of_char c)"
  by (cases c) (auto simp add: upper_char_def less_eq_char_def)

lemma sorted_groupby_keys: "sorted (map fst (groupby_usd_mean key df))"
  by (simp add: groupby_keys sorted_py_def)

lemma set_groupby_keys: "set (map fst (groupby_usd_mean key df)) = key ` set df"
  by (simp add: groupby_keys sorted_py_def set_unique col_def)

lemma filter_filter_ds:
  "filter (\<lambda>r. residencia r = res) (df_ds dff) =
     filter (\<lambda>r. cargo r = ''Data Scientist'' \<and> residencia r = res) dff"
  by (simp add: df_ds_filter conj_commute)

text \<open>
  C7: on every non-empty filtered table the map panel shows the geographic aggregate. It
  is computed from exactly the rows whose job title is Data Scientist. Its residence codes
  are those of these rows, each once, in sorted order, so it has as many rows as these
  rows have distinct residence codes. The salary of a row is the sum of the salaries of
  the Data Scientist rows of that residence divided by their number, and there is at
  least one such row. Its 3-letter code is the normalizer's result on the residence code,
  which is the code of the lookup on the upper-case residence code, upper case meaning 32
  subtracted from every byte from 97 to 122, and \<^verbatim>\<open>None\<close> when the lookup finds
  nothing or raises.
\<close>

theorem C7_df_pais:
  assumes "dff \<noteq> []"
  shows "\<exists>rows. col_graf4 get dff = Inr (Grafico rows) \<and>
    df_ds dff = filter (\<lambda>r. cargo r = ''Data Scientist'') dff \<and>
    map fst rows = sorted_py (unique (col residencia (df_ds dff))) \<and>
    sorted (map fst rows) \<and>
    distinct (map fst rows) \<and>
    set (map fst rows) = residencia ` {r \<in> set dff. cargo r = ''Data Scientist''} \<and>
    length rows = card (residencia ` {r \<in> set dff. cargo r = ''Data Scientist''}) \<and>
    (\<forall>(res, m, iso) \<in> set rows.
       m = mean (col usd (filter (\<lambda>r. residencia r = res) (df_ds dff))) \<and>
       filter (\<lambda>r. residencia r = res) (df_ds dff) \<noteq> [] \<and>
       m = sum_list (map usd (filter (\<lambda>r. cargo r = ''Data Scientist'' \<and> residencia r = res) dff)) /
           real (length (filter (\<lambda>r. cargo r = ''Data Scientist'' \<and> residencia r = res) dff)) \<and>
       converter_sigla get (PStr (py_upper res)) = Inr iso \<and>
       iso = (case get (py_upper res) of Inr (Some c) \<Rightarrow> Some (alpha_3 c) | _ \<Rightarrow> None) \<and>
       map of_char (py_upper res) =
         map (\<lambda>c. if 97 \<le> (of_char c :: nat) \<and> (of_char c :: nat) \<le> 122
                   then (of_char c :: nat) - 32 else of_char c) res)"
proof -
  let ?g = "groupby_usd_mean residencia (df_ds dff)"
  let ?rows = "map (\<lambda>(r, m). (r, m, iso_de get r)) ?g"
  let ?ds = "{r \<in> set dff. cargo r = ''Data Scientist''}"
  have panel: "col_graf4 get dff = Inr (Grafico ?rows)"
    using assms by (simp add: col_graf4_def df_pais_eq)
  have fst_rows: "map fst ?rows = map fst ?g"
    by (simp add: comp_def case_prod_beta)
  have keys: "map fst ?rows = sorted_py (unique (col residencia (df_ds dff)))"
    using fst_rows by (simp add: groupby_keys)
  have srt: "sorted (map fst ?rows)"
    unfolding fst_rows by (rule sorted_groupby_keys)
  have dist: "distinct (map fst ?rows)"
    unfolding keys by (simp add: sorted_py_def unique_def)
  have "set (df_ds dff) = ?ds"
    by (auto simp add: df_ds_filter)
  then have kset: "set (map fst ?rows) = residencia ` ?ds"
    unfolding fst_rows set_groupby_keys by simp
  have "length ?rows = length (map fst ?rows)" by simp
  also have "\<dots> = card (set (map fst ?rows))"
    using dist by (rule distinct_card [symmetric])
  finally have len: "length ?rows = card (residencia ` ?ds)"
    unfolding kset .
  have entries: "\<forall>(res, m, iso) \<in> set ?rows.
       m = mean (col usd (filter (\<lambda>r. residencia r = res) (df_ds dff))) \<and>
       filter (\<lambda>r. residencia r = res) (df_ds dff) \<noteq> [] \<and>
       m = sum_list (map usd (filter (\<lambda>r. cargo r = ''Data Scientist'' \<and> residencia r = res) dff)) /
           real (length (filter (\<lambda>r. cargo r = ''Data Scientist'' \<and> residencia r = res) dff)) \<and>
       converter_sigla get (PStr (py_upper res)) = Inr iso \<and>
       iso = (case get (py_upper res) of Inr (Some c) \<Rightarrow> Some (alpha_3 c) | _ \<Rightarrow> None) \<and>
       map of_char (py_upper res) =
         map (\<lambda>c. if 97 \<le> (of_char c :: nat) \<and> (of_char c :: nat) \<le> 122
                   then (of_char c :: nat) - 32 else of_char c) res"
  proof (intro ballI)
    fix x assume "x \<in> set ?rows"
    then obtain res where res: "res \<in> set (col residencia (df_ds dff))"
      and x: "x = (res, media_grupo residencia (df_ds dff) res, iso_de get res)"
      by (auto simp add: groupby_set)
    have ne: "filter (\<lambda>r. residencia r = res) (df_ds dff) \<noteq> []"
      using res by (auto simp add: col_def filter_empty_conv)
    have m1: "media_grupo residencia (df_ds dff) res =
        mean (col usd (filter (\<lambda>r. residencia r = res) (df_ds dff)))"
      by (simp add: media_grupo_def)
    have m2: "media_grupo residencia (df_ds dff) res =
        sum_list (map usd (filter (\<lambda>r. cargo r = ''Data Scientist'' \<and> residencia r = res) dff)) /
        real (length (filter (\<lambda>r. cargo r = ''Data Scientist'' \<and> residencia r = res) dff))"
      unfolding media_grupo_def mean_def col_def filter_filter_ds by simp
    have i1: "converter_sigla get (PStr (py_upper res)) = Inr (iso_de get res)"
      by (rule converter_sigla_upper)
    have i2: "iso_de get res =
        (case get (py_upper res) of Inr (Some c) \<Rightarrow> Some (alpha_3 c) | _ \<Rightarrow> None)"
      by (simp add: iso_de_def)
    have b: "map of_char (py_upper res) =
         map (\<lambda>c. if 97 \<le> (of_char c :: nat) \<and> (of_char c :: nat) \<le> 122
                   then (of_char c :: nat) - 32 else of_char c) res"
      by (simp add: py_upper_def upper_char_byte)
    show "case x of (res, m, a3) \<Rightarrow>
       m = mean (col usd (filter (\<lambda>r. residencia r = res) (df_ds dff))) \<and>
       filter (\<lambda>r. residencia r = res) (df_ds dff) \<noteq> [] \<and>
       m = sum_list (map usd (filter (\<lambda>r. cargo r = ''Data Scientist'' \<and> residencia r = res) dff)) /
           real (length (filter (\<lambda>r. cargo r = ''Data Scientist'' \<and> residencia r = res) dff)) \<and>
       converter_sigla get (PStr (py_upper res)) = Inr a3 \<and>
       a3 = (case get (py_upper res) of Inr (Some c) \<Rightarrow> Some (alpha_3 c) | _ \<Rightarrow> None) \<and>
       map of_char (py_upper res) =
         map (\<lambda>c. if 97 \<le> (of_char c :: nat) \<and> (of_char c :: nat) \<le> 122
                   then (of_char c :: nat) - 32 else of_char c) res"
      unfolding x prod.case
      using ne m1 m2 i1 i2 b by blast
  qed
  from panel keys srt dist kset len entries df_ds_filter show ?thesis by blast
qed

theorem C7_witness:
  "exemplo_paises \<noteq> [] \<and>
   col_graf4 (get_tabela tabela_paises) exemplo_paises =
     Inr (Grafico [(''BR'', 60000, Some ''BRA''), (''us'', 120000, Some ''USA''),
                   (''zz'', 50000, None)]) \<and>
   col_graf4 (get_tabela tabela_paises) exemplo =
     Inr (Grafico [(''BR'', 60000, Some ''BRA''), (''US'', 140000, Some ''USA'')]) \<and>
   col_graf4 (get_tabela tabela_paises) empate = Inr (Grafico []) \<and>
   (\<exists>rows. col_graf4 (get_tabela tabela_paises) exemplo_paises = Inr (Grafico rows) \<and>
      distinct (map fst rows) \<and> length rows = 3)"
proof -
  have ne: "exemplo_paises \<noteq> []" by (simp add: exemplo_paises_def)
  have 0: "col_graf4 (get_tabela tabela_paises) exemplo_paises =
     Inr (Grafico [(''BR'', 60000, Some ''BRA''), (''us'', 120000, Some ''USA''),
                   (''zz'', 50000, None)])"
    by (simp add: col_graf4_def df_pais_def df_ds_def bool_index_def
        converter_sigla_def sigla_alpha_3_def str_upper_def attr_alpha_3_def
        groupby_usd_mean_def media_grupo_def
        mean_def sorted_py_def unique_def col_def exemplo_paises_def mk_row_def
        get_tabela_def tabela_paises_def py_upper_def upper_char_def)
  have 1: "col_graf4 (get_tabela tabela_paises) exemplo =
     Inr (Grafico [(''BR'', 60000, Some ''BRA''), (''US'', 140000, Some ''USA'')])"
    by (simp add: col_graf4_def df_pais_def df_ds_def bool_index_def
        converter_sigla_def sigla_alpha_3_def str_upper_def attr_alpha_3_def
        groupby_usd_mean_def media_grupo_def
        mean_def sorted_py_def unique_def col_def exemplo_def mk_row_def
        get_tabela_def tabela_paises_def py_upper_def upper_char_def)
  have 2: "col_graf4 (get_tabela tabela_paises) empate = Inr (Grafico [])"
    by (simp add: col_graf4_def df_pais_def df_ds_def bool_index_def groupby_usd_mean_def
        sorted_py_def unique_def col_def empate_def mk_row_def)
  from C7_df_pais [OF ne, of "get_tabela tabela_paises"]
  obtain rows where r: "col_graf4 (get_tabela tabela_paises) exemplo_paises = Inr (Grafico rows)"
    and d: "distinct (map fst rows)" by blast
  from r 0 have "rows = [(''BR'', 60000, Some ''BRA''), (''us'', 120000, Some ''USA''),
                   (''zz'', 50000, None)]" by simp
  then have "length rows = 3" by simp
  with r d have "\<exists>rows. col_graf4 (get_tabela tabela_paises) exemplo_paises = Inr (Grafico rows) \<and>
      distinct (map fst rows) \<and> length rows = 3" by blast
  with ne 0 1 2 show ?thesis by blast
qed

end
